theory Spec2Isabelle
  imports Complex_Main "HOL-Library.Sublist"
begin

section \<open>Domain entities (app/domain/ml/entities.py)\<close>

text \<open>
  Python floats are modelled as \<^typ>\<open>real\<close> and Python ints as \<^typ>\<open>int\<close>;
  the data classes become records with the field names of the source. The comparisons
  and subtractions the entities perform on floats never raise in Python, so the methods
  below are total functions. Where the source has a property or a method of the same
  name as a record field of another class, the name carries a short prefix.
\<close>

record BoundingBox =
  x1 :: real
  y1 :: real
  x2 :: real
  y2 :: real

definition width :: "BoundingBox \<Rightarrow> real" where
  "width b = x2 b - x1 b"

definition height :: "BoundingBox \<Rightarrow> real" where
  "height b = y2 b - y1 b"

definition area :: "BoundingBox \<Rightarrow> real" where
  "area b = width b * height b"

definition center :: "BoundingBox \<Rightarrow> real \<times> real" where
  "center b = ((x1 b + x2 b) / 2, (y1 b + y2 b) / 2)"

text \<open>The normalised box is the dictionary with the keys x, y, width and height.\<close>

record Detection =
  class_id :: int
  class_name :: string
  confidence :: real
  bbox :: BoundingBox
  bbox_normalized :: "(string \<times> real) list option"

text \<open>\<^verbatim>\<open>Detection.is_valid\<close>: the chain of \<^verbatim>\<open>and\<close> of the source, in its order.\<close>

definition is_valid :: "Detection \<Rightarrow> real \<Rightarrow> bool" where
  "is_valid d min_confidence =
     (confidence d \<ge> min_confidence \<and>
      (0 \<le> confidence d \<and> confidence d \<le> 1.0) \<and>
      width (bbox d) > 0 \<and>
      height (bbox d) > 0)"

text \<open>
  Values of the dictionaries the code builds (image information, model information,
  statistics). A dictionary is an association list in insertion order.
\<close>

datatype py_value =
    PyNone
  | PyInt int
  | PyFloat real
  | PyStr string
  | PyStrList "string list"

type_synonym py_dict = "(string \<times> py_value) list"

record DetectionResult =
  detections :: "Detection list"
  image_info :: py_dict
  processing_time :: real
  model_info :: py_dict
  timestamp :: real

definition detection_count :: "DetectionResult \<Rightarrow> int" where
  "detection_count r = int (length (detections r))"

text \<open>
  \<^verbatim>\<open>list(set(...))\<close>: the distinct class names. Python fixes no order for the
  elements of a set; the model lists them in order of first occurrence, and only the
  set of elements and their distinctness are meant.
\<close>

definition unique_classes :: "DetectionResult \<Rightarrow> string list" where
  "unique_classes r = remdups (map class_name (detections r))"

definition filter_by_confidence :: "DetectionResult \<Rightarrow> real \<Rightarrow> Detection list" where
  "filter_by_confidence r min_confidence =
     [d \<leftarrow> detections r. confidence d \<ge> min_confidence]"

definition filter_by_class :: "DetectionResult \<Rightarrow> string list \<Rightarrow> Detection list" where
  "filter_by_class r class_names =
     [d \<leftarrow> detections r. class_name d \<in> set class_names]"

text \<open>Python's \<^verbatim>\<open>max\<close> and \<^verbatim>\<open>min\<close> of a list, called on non-empty lists only.\<close>

fun py_max :: "real list \<Rightarrow> real" where
  "py_max [] = 0"
| "py_max (x # xs) = fold max xs x"

fun py_min :: "real list \<Rightarrow> real" where
  "py_min [] = 0"
| "py_min (x # xs) = fold min xs x"

definition get_statistics :: "DetectionResult \<Rightarrow> py_dict" where
  "get_statistics r =
     (if detections r = [] then
        [(''total_detections'', PyInt 0),
         (''unique_classes'', PyStrList []),
         (''avg_confidence'', PyFloat 0.0),
         (''max_confidence'', PyFloat 0.0),
         (''min_confidence'', PyFloat 0.0)]
      else
        (let confidences = map confidence (detections r) in
         [(''total_detections'', PyInt (int (length (detections r)))),
          (''unique_classes'', PyStrList (unique_classes r)),
          (''avg_confidence'', PyFloat (sum_list confidences / real (length confidences))),
          (''max_confidence'', PyFloat (py_max confidences)),
          (''min_confidence'', PyFloat (py_min confidences)),
          (''processing_time'', PyFloat (processing_time r))]))"

text \<open>\<^verbatim>\<open>key in d\<close> on such a dictionary.\<close>

definition has_key :: "py_dict \<Rightarrow> string \<Rightarrow> bool" where
  "has_key d k = (map_of d k \<noteq> None)"

record ModelConfiguration =
  model_name :: string
  model_path :: string
  confidence_threshold :: real
  iou_threshold :: real
  max_detections :: int
  target_classes :: "string list option"

text \<open>\<^verbatim>\<open>ModelConfiguration.is_valid\<close>.\<close>

definition config_is_valid :: "ModelConfiguration \<Rightarrow> bool" where
  "config_is_valid c =
     ((0.0 \<le> confidence_threshold c \<and> confidence_threshold c \<le> 1.0) \<and>
      (0.0 \<le> iou_threshold c \<and> iou_threshold c \<le> 1.0) \<and>
      max_detections c > 0)"

section \<open>Exceptions, external collaborators and effects\<close>

text \<open>
  The exceptions that can travel through the service are subclasses of Python's
  \<^verbatim>\<open>Exception\<close>: those the code raises itself and those raised inside the
  libraries it calls (\<open>ExternalError\<close>, with the text \<^verbatim>\<open>str(e)\<close> gives). Messages are
  written without diacritics and quotation marks. A function that can raise returns
  \<open>py_exception + 'a\<close>, the exception on the left.
\<close>

datatype py_exception =
    ValueError string
  | AttributeError string
  | IndexError string
  | ExternalError string

fun exception_str :: "py_exception \<Rightarrow> string" where
  "exception_str (ValueError m) = m"
| "exception_str (AttributeError m) = m"
| "exception_str (IndexError m) = m"
| "exception_str (ExternalError m) = m"

text \<open>
  The image sources \<^verbatim>\<open>_get_image_info\<close> tells apart: a path, a decoded PIL image, a
  numpy array, anything else. Of an image and of an array the model keeps the
  attributes the code reads.
\<close>

record pil_image =
  img_width :: int
  img_height :: int
  img_format :: "string option"
  img_mode :: string

record ndarray =
  shape :: "int list"
  dtype :: string

datatype image_source =
    FilePath string
  | PILImage pil_image
  | NdArray ndarray
  | OtherSource

text \<open>
  The handle the \<^verbatim>\<open>YOLO\<close> constructor returns: the file it was built from and the
  attributes the code reads (\<^verbatim>\<open>device\<close>, and \<^verbatim>\<open>task\<close>, which may be missing). A call
  of the handle returns, per result, an optional list of boxes and the table of class
  names, which has a name for every class index of a box.
\<close>

record YOLO_model =
  weights :: string
  device :: string
  task :: "string option"

record yolo_box =
  box_cls :: int
  box_conf :: real
  box_xyxy :: "real \<times> real \<times> real \<times> real"
  box_xywhn :: "real \<times> real \<times> real \<times> real"

record yolo_result =
  boxes :: "yolo_box list option"
  names :: "int \<Rightarrow> string"

text \<open>
  The libraries and the operating system are parameters of the model: the file system
  (\<^verbatim>\<open>os.path.exists\<close>), the \<^verbatim>\<open>YOLO\<close> constructor, the call of a loaded model,
  \<^verbatim>\<open>PIL.Image.open\<close>, and the system clock, whose \<open>n\<close>-th reading is \<open>clock n\<close>.
\<close>

record environment =
  path_exists :: "string \<Rightarrow> bool"
  YOLO :: "string \<Rightarrow> py_exception + YOLO_model"
  run_model :: "YOLO_model \<Rightarrow> image_source \<Rightarrow> real \<Rightarrow> real \<Rightarrow> int \<Rightarrow> int list option
                 \<Rightarrow> py_exception + yolo_result list"
  image_open :: "string \<Rightarrow> py_exception + pil_image"
  clock :: "nat \<Rightarrow> real"

text \<open>
  The effects on the outside are recorded in a world state that every operation takes
  and returns: the number of clock readings so far, and the calls made to the inference
  engine, oldest first (a load with the path given to the constructor, an inference with
  the source and the parameters given to the model).
\<close>

datatype engine_call =
    LoadCall string
  | InferCall image_source real real int "int list option"

record world =
  clock_reads :: nat
  calls :: "engine_call list"

text \<open>\<^verbatim>\<open>time.time()\<close> and \<^verbatim>\<open>datetime.now()\<close>: one reading of the clock.\<close>

definition read_clock :: "environment \<Rightarrow> world \<Rightarrow> real \<times> world" where
  "read_clock env w = (clock env (clock_reads w), w\<lparr>clock_reads := Suc (clock_reads w)\<rparr>)"

section \<open>Model loader and inference (app/infrastructure/ml/yolo_model.py)\<close>

text \<open>
  The loader's two attributes; \<open>loader_model_path\<close> is the attribute
  \<^verbatim>\<open>model_path\<close> of \<^verbatim>\<open>YOLOModelLoader\<close> (the configuration has a field of that name
  too).
\<close>

record YOLOModelLoader =
  model :: "YOLO_model option"
  loader_model_path :: "string option"

text \<open>\<^verbatim>\<open>os.path.join\<close> of two components (POSIX).\<close>

definition os_path_join :: "string \<Rightarrow> string \<Rightarrow> string" where
  "os_path_join a b =
     (if b \<noteq> [] \<and> hd b = CHR ''/'' then b
      else if a = [] \<or> last a = CHR ''/'' then a @ b
      else a @ ''/'' @ b)"

text \<open>
  \<^verbatim>\<open>YOLOModelLoader.load_model\<close>. The early return reuses the loaded handle; otherwise
  the constructor is called (a \<open>LoadCall\<close>), and only its success changes the loader.
  \<^verbatim>\<open>configure_torch_serialization\<close> catches its own exceptions and changes nothing the
  loader reads.
\<close>

definition load_model ::
  "environment \<Rightarrow> string \<Rightarrow> YOLOModelLoader \<Rightarrow> world
     \<Rightarrow> (py_exception + YOLO_model) \<times> YOLOModelLoader \<times> world" where
  "load_model env name l w =
     (if model l \<noteq> None \<and> loader_model_path l = Some name then (Inr (the (model l)), l, w)
      else
        (let joined = os_path_join ''models'' name;
             path = (if \<not> path_exists env joined then name else joined);
             w' = w\<lparr>calls := calls w @ [LoadCall path]\<rparr>
         in case YOLO env path of
              Inl e \<Rightarrow> (Inl e, l, w')
            | Inr m \<Rightarrow> (Inr m, l\<lparr>model := Some m, loader_model_path := Some name\<rparr>, w')))"

definition get_model_info :: "YOLOModelLoader \<Rightarrow> py_dict" where
  "get_model_info l =
     (case model l of
        None \<Rightarrow> [(''status'', PyStr ''not_loaded'')]
      | Some m \<Rightarrow>
         [(''status'', PyStr ''loaded''),
          (''model_path'', (case loader_model_path l of None \<Rightarrow> PyNone | Some p \<Rightarrow> PyStr p)),
          (''device'', PyStr (device m)),
          (''task'', PyStr (case task m of None \<Rightarrow> ''unknown'' | Some t \<Rightarrow> t))])"

definition unload_model :: "YOLOModelLoader \<Rightarrow> YOLOModelLoader" where
  "unload_model l =
     (case model l of
        None \<Rightarrow> l
      | Some m \<Rightarrow> l\<lparr>model := None, loader_model_path := None\<rparr>)"

text \<open>The dictionary \<^verbatim>\<open>YOLOInference.predict\<close> builds for one box.\<close>

record raw_detection =
  raw_class_id :: int
  raw_class_name :: string
  raw_confidence :: real
  raw_bbox :: BoundingBox
  raw_bbox_normalized :: "(string \<times> real) list option"

definition format_box :: "(int \<Rightarrow> string) \<Rightarrow> yolo_box \<Rightarrow> raw_detection" where
  "format_box nms b =
     (case box_xyxy b of (a1, b1, a2, b2) \<Rightarrow>
      case box_xywhn b of (nx, ny, nw, nh) \<Rightarrow>
        \<lparr>raw_class_id = box_cls b,
         raw_class_name = nms (box_cls b),
         raw_confidence = box_conf b,
         raw_bbox = \<lparr>x1 = a1, y1 = b1, x2 = a2, y2 = b2\<rparr>,
         raw_bbox_normalized =
           Some [(''x'', nx), (''y'', ny), (''width'', nw), (''height'', nh)]\<rparr>)"

definition format_result :: "yolo_result \<Rightarrow> raw_detection list" where
  "format_result res =
     (case boxes res of
        None \<Rightarrow> []
      | Some bs \<Rightarrow> map (format_box (names res)) bs)"

text \<open>
  \<^verbatim>\<open>YOLOInference.predict\<close>: refuses when no model is loaded, otherwise calls the
  model (an \<open>InferCall\<close>) and formats every box of every result, in order; an exception of
  the call is raised again.
\<close>

definition predict ::
  "environment \<Rightarrow> YOLOModelLoader \<Rightarrow> image_source \<Rightarrow> real \<Rightarrow> real \<Rightarrow> int \<Rightarrow> int list option
     \<Rightarrow> world \<Rightarrow> (py_exception + raw_detection list) \<times> world" where
  "predict env l source conf iou max_det classes w =
     (case model l of
        None \<Rightarrow> (Inl (ValueError ''Modelo nao carregado. Chame load_model() primeiro.''), w)
      | Some m \<Rightarrow>
         (let w' = w\<lparr>calls := calls w @ [InferCall source conf iou max_det classes]\<rparr>
          in case run_model env m source conf iou max_det classes of
               Inl e \<Rightarrow> (Inl e, w')
             | Inr results \<Rightarrow> (Inr (concat (map format_result results)), w')))"

section \<open>Detection service (app/services/ml/object_detection_service.py)\<close>

text \<open>
  The service keeps the stored configuration and the loader. The messages the code
  prints are left out: the standard output is taken to accept every message, so printing
  neither fails nor changes what is returned.
\<close>

record ObjectDetectionService =
  model_config :: "ModelConfiguration option"
  model_loader :: YOLOModelLoader

text \<open>
  The body of the \<^verbatim>\<open>try\<close> of \<^verbatim>\<open>initialize_model\<close>. The configuration is stored
  before the model is loaded, so a failing load leaves the new configuration in place.
\<close>

definition initialize_model_try ::
  "environment \<Rightarrow> ModelConfiguration \<Rightarrow> ObjectDetectionService \<Rightarrow> world
     \<Rightarrow> (py_exception + bool) \<times> ObjectDetectionService \<times> world" where
  "initialize_model_try env cfg svc w =
     (if \<not> config_is_valid cfg then
        (Inl (ValueError ''Configuracao do modelo invalida''), svc, w)
      else
        (let svc1 = svc\<lparr>model_config := Some cfg\<rparr> in
         case load_model env (model_name cfg) (model_loader svc1) w of
           (Inl e, l', w') \<Rightarrow> (Inl e, svc1\<lparr>model_loader := l'\<rparr>, w')
         | (Inr m, l', w') \<Rightarrow> (Inr True, svc1\<lparr>model_loader := l'\<rparr>, w')))"

text \<open>\<^verbatim>\<open>initialize_model\<close>: \<^verbatim>\<open>except Exception\<close> turns every exception into False.\<close>

definition initialize_model ::
  "environment \<Rightarrow> ModelConfiguration \<Rightarrow> ObjectDetectionService \<Rightarrow> world
     \<Rightarrow> bool \<times> ObjectDetectionService \<times> world" where
  "initialize_model env cfg svc w =
     (case initialize_model_try env cfg svc w of
        (Inr b, svc', w') \<Rightarrow> (b, svc', w')
      | (Inl e, svc', w') \<Rightarrow> (False, svc', w'))"

text \<open>
  The override dictionary \<^verbatim>\<open>custom_config\<close>, with the four keys the code reads, each
  with the type of the parameter its value is passed to; a key that is absent is
  \<open>None\<close>. The argument itself is optional (\<^verbatim>\<open>Optional[Dict[str, Any]] = None\<close>).
  \<open>dict_get\<close> is \<^verbatim>\<open>d.get(key, default)\<close>.
\<close>

record custom_config =
  cc_confidence :: "real option"
  cc_iou_threshold :: "real option"
  cc_max_detections :: "int option"
  cc_class_ids :: "int list option"

definition dict_get :: "'a option \<Rightarrow> 'a \<Rightarrow> 'a" where
  "dict_get entry dflt = (case entry of None \<Rightarrow> dflt | Some v \<Rightarrow> v)"

text \<open>The dictionary \<^verbatim>\<open>_merge_configs\<close> returns, read by the same four keys.\<close>

record merged_config =
  mc_confidence :: real
  mc_iou_threshold :: real
  mc_max_detections :: int
  mc_class_ids :: "int list option"

text \<open>
  \<^verbatim>\<open>_merge_configs\<close>: the three values of the stored configuration, then
  \<^verbatim>\<open>update\<close> with the override, which replaces the value of every key it has.
\<close>

definition merge_configs ::
  "ObjectDetectionService \<Rightarrow> custom_config \<Rightarrow> py_exception + merged_config" where
  "merge_configs svc cc =
     (case model_config svc of
        None \<Rightarrow> Inl (ValueError ''Modelo nao inicializado. Chame initialize_model() primeiro.'')
      | Some active \<Rightarrow>
          Inr \<lparr>mc_confidence = dict_get (cc_confidence cc) (confidence_threshold active),
               mc_iou_threshold = dict_get (cc_iou_threshold cc) (iou_threshold active),
               mc_max_detections = dict_get (cc_max_detections cc) (max_detections active),
               mc_class_ids = cc_class_ids cc\<rparr>)"

definition convert_to_domain_entities :: "raw_detection list \<Rightarrow> Detection list" where
  "convert_to_domain_entities raw_detections =
     map (\<lambda>raw. \<lparr>class_id = raw_class_id raw,
                 class_name = raw_class_name raw,
                 confidence = raw_confidence raw,
                 bbox = \<lparr>x1 = x1 (raw_bbox raw), y1 = y1 (raw_bbox raw),
                         x2 = x2 (raw_bbox raw), y2 = y2 (raw_bbox raw)\<rparr>,
                 bbox_normalized = raw_bbox_normalized raw\<rparr>) raw_detections"

text \<open>
  \<^verbatim>\<open>_get_image_info\<close>. An exception inside (opening the file, indexing the shape
  of an array without dimensions) becomes the two-key error dictionary.
\<close>

definition pil_info :: "pil_image \<Rightarrow> string \<Rightarrow> py_dict" where
  "pil_info img source_type =
     [(''width'', PyInt (img_width img)),
      (''height'', PyInt (img_height img)),
      (''format'', (case img_format img of None \<Rightarrow> PyNone | Some f \<Rightarrow> PyStr f)),
      (''mode'', PyStr (img_mode img)),
      (''source_type'', PyStr source_type)]"

definition error_info :: "py_exception \<Rightarrow> py_dict" where
  "error_info e = [(''error'', PyStr (exception_str e)), (''source_type'', PyStr ''error'')]"

definition get_image_info :: "environment \<Rightarrow> image_source \<Rightarrow> py_dict" where
  "get_image_info env image_source =
     (case image_source of
        FilePath p \<Rightarrow>
          (case image_open env p of
             Inl e \<Rightarrow> error_info e
           | Inr img \<Rightarrow> pil_info img ''file_path'')
      | PILImage img \<Rightarrow> pil_info img ''pil_image''
      | NdArray a \<Rightarrow>
          (case shape a of
             [] \<Rightarrow> error_info (IndexError ''tuple index out of range'')
           | h # rest \<Rightarrow>
               [(''width'', PyInt (if length (shape a) > 1 then shape a ! 1 else h)),
                (''height'', PyInt h),
                (''channels'', PyInt (if length (shape a) > 2 then shape a ! 2 else 1)),
                (''dtype'', PyStr (dtype a)),
                (''source_type'', PyStr ''numpy_array'')])
      | OtherSource \<Rightarrow> [(''source_type'', PyStr ''unknown'')])"

text \<open>
  The \<^verbatim>\<open>try\<close> block of \<^verbatim>\<open>detect_objects\<close>, entered with the start time; its
  \<^verbatim>\<open>except\<close> raises the exception again. \<^verbatim>\<open>custom_config or {}\<close> is the override
  itself, an empty dictionary having no key. The allow-list is read from the stored
  configuration after the predictions have been converted.
\<close>

definition detect_objects_try ::
  "environment \<Rightarrow> image_source \<Rightarrow> custom_config \<Rightarrow> real \<Rightarrow> ObjectDetectionService \<Rightarrow> world
     \<Rightarrow> (py_exception + DetectionResult) \<times> world" where
  "detect_objects_try env image_source cc start_time svc w =
     (case merge_configs svc cc of
        Inl e \<Rightarrow> (Inl e, w)
      | Inr config \<Rightarrow>
         (case predict env (model_loader svc) image_source (mc_confidence config)
                 (mc_iou_threshold config) (mc_max_detections config) (mc_class_ids config) w of
            (Inl e, w1) \<Rightarrow> (Inl e, w1)
          | (Inr raw_detections, w1) \<Rightarrow>
             (case model_config svc of
                None \<Rightarrow>
                  (Inl (AttributeError ''NoneType object has no attribute target_classes''), w1)
              | Some stored \<Rightarrow>
                 (let converted = convert_to_domain_entities raw_detections;
                      kept = (case target_classes stored of
                                None \<Rightarrow> converted
                              | Some allowed \<Rightarrow>
                                  [d \<leftarrow> converted. class_name d \<in> set allowed]);
                      (end_time, w2) = read_clock env w1;
                      (now, w3) = read_clock env w2
                  in (Inr \<lparr>detections = kept,
                           image_info = get_image_info env image_source,
                           processing_time = end_time - start_time,
                           model_info = get_model_info (model_loader svc),
                           timestamp = now\<rparr>, w3)))))"

text \<open>
  The configuration \<^verbatim>\<open>detect_objects\<close> builds first: the values of the override,
  or the defaults 0.25, 0.45 and 1000, with the fixed model name and no allow-list.
\<close>

definition request_configuration :: "custom_config \<Rightarrow> ModelConfiguration" where
  "request_configuration cc =
     \<lparr>model_name = ''GarIA.pt'',
      model_path = ''models/GarIA.pt'',
      confidence_threshold = dict_get (cc_confidence cc) 0.25,
      iou_threshold = dict_get (cc_iou_threshold cc) 0.45,
      max_detections = dict_get (cc_max_detections cc) 1000,
      target_classes = None\<rparr>"

text \<open>
  \<^verbatim>\<open>detect_objects\<close>. Reading a key of an omitted override (\<open>None\<close>) raises
  \<^verbatim>\<open>AttributeError\<close>. The result of \<^verbatim>\<open>initialize_model\<close> is not looked at: the
  check that follows is only that some configuration is stored.
\<close>

definition detect_objects ::
  "environment \<Rightarrow> image_source \<Rightarrow> custom_config option \<Rightarrow> ObjectDetectionService \<Rightarrow> world
     \<Rightarrow> (py_exception + DetectionResult) \<times> ObjectDetectionService \<times> world" where
  "detect_objects env image_source custom svc w =
     (case custom of
        None \<Rightarrow> (Inl (AttributeError ''NoneType object has no attribute get''), svc, w)
      | Some cc \<Rightarrow>
         (case initialize_model env (request_configuration cc) svc w of
            (initialized, svc1, w1) \<Rightarrow>
              if model_config svc1 = None then
                (Inl (ValueError ''Modelo nao inicializado. Chame initialize_model() primeiro.''),
                 svc1, w1)
              else
                (case read_clock env w1 of
                   (start_time, w2) \<Rightarrow>
                     (case detect_objects_try env image_source cc start_time svc1 w2 of
                        (res, w3) \<Rightarrow> (res, svc1, w3)))))"

text \<open>
  \<^verbatim>\<open>detect_objects_batch\<close>: the loop over the sources, appending to
  \<open>results\<close> either the result or, on an exception, the record of the failure.
\<close>

definition failure_result ::
  "environment \<Rightarrow> py_exception \<Rightarrow> ObjectDetectionService \<Rightarrow> world \<Rightarrow> DetectionResult \<times> world" where
  "failure_result env e svc w =
     (let (now, w1) = read_clock env w
      in (\<lparr>detections = [],
           image_info = [(''error'', PyStr (exception_str e))],
           processing_time = 0.0,
           model_info = get_model_info (model_loader svc),
           timestamp = now\<rparr>, w1))"

definition batch_step ::
  "environment \<Rightarrow> custom_config option \<Rightarrow> image_source \<Rightarrow> ObjectDetectionService \<Rightarrow> world
     \<Rightarrow> DetectionResult \<times> ObjectDetectionService \<times> world" where
  "batch_step env custom image_source svc w =
     (case detect_objects env image_source custom svc w of
        (Inr result, svc1, w1) \<Rightarrow> (result, svc1, w1)
      | (Inl e, svc1, w1) \<Rightarrow>
          (case failure_result env e svc1 w1 of (result, w2) \<Rightarrow> (result, svc1, w2)))"

fun batch_loop ::
  "environment \<Rightarrow> custom_config option \<Rightarrow> image_source list \<Rightarrow> DetectionResult list
     \<Rightarrow> ObjectDetectionService \<Rightarrow> world
     \<Rightarrow> DetectionResult list \<times> ObjectDetectionService \<times> world" where
  "batch_loop env custom [] results svc w = (results, svc, w)"
| "batch_loop env custom (image_source # rest) results svc w =
     (case batch_step env custom image_source svc w of
        (result, svc1, w1) \<Rightarrow> batch_loop env custom rest (results @ [result]) svc1 w1)"

definition detect_objects_batch ::
  "environment \<Rightarrow> image_source list \<Rightarrow> custom_config option \<Rightarrow> ObjectDetectionService \<Rightarrow> world
     \<Rightarrow> DetectionResult list \<times> ObjectDetectionService \<times> world" where
  "detect_objects_batch env image_sources custom svc w =
     batch_loop env custom image_sources [] svc w"

text \<open>The service as its constructor leaves it, and the world before anything ran.\<close>

definition new_service :: ObjectDetectionService where
  "new_service = \<lparr>model_config = None,
                  model_loader = \<lparr>model = None, loader_model_path = None\<rparr>\<rparr>"

definition initial_world :: world where
  "initial_world = \<lparr>clock_reads = 0, calls = []\<rparr>"

section \<open>The configuration an inference call receives\<close>

text \<open>
  The parameters of the inference calls recorded in a world, oldest first: what the
  detector was actually run with.
\<close>

fun call_parameters :: "engine_call \<Rightarrow> merged_config option" where
  "call_parameters (LoadCall p) = None"
| "call_parameters (InferCall src conf iou max_det classes) =
     Some \<lparr>mc_confidence = conf, mc_iou_threshold = iou, mc_max_detections = max_det,
           mc_class_ids = classes\<rparr>"

definition inference_parameters :: "world \<Rightarrow> merged_config list" where
  "inference_parameters w = List.map_filter call_parameters (calls w)"

text \<open>
  The merge as the specification words it, for comparison with the code: the override
  field by field over the active configuration, and over the documented defaults when
  no configuration is active.
\<close>

definition spec_merge :: "ModelConfiguration option \<Rightarrow> custom_config \<Rightarrow> merged_config" where
  "spec_merge active cc =
     \<lparr>mc_confidence =
        dict_get (cc_confidence cc)
          (case active of None \<Rightarrow> 0.25 | Some a \<Rightarrow> confidence_threshold a),
      mc_iou_threshold =
        dict_get (cc_iou_threshold cc)
          (case active of None \<Rightarrow> 0.45 | Some a \<Rightarrow> iou_threshold a),
      mc_max_detections =
        dict_get (cc_max_detections cc)
          (case active of None \<Rightarrow> 1000 | Some a \<Rightarrow> max_detections a),
      mc_class_ids = cc_class_ids cc\<rparr>"

section \<open>A stub environment and sample data\<close>

text \<open>
  A detector that knows the weights \<^verbatim>\<open>models/GarIA.pt\<close> and answers every image but
  \<^verbatim>\<open>broken.jpg\<close> with two boxes: a bottle with confidence 0.9 in (0,0,10,10) and a
  bag with confidence 0.1 in (5,5,8,8).
\<close>

definition stub_names :: "int \<Rightarrow> string" where
  "stub_names i = (if i = 0 then ''bottle'' else ''bag'')"

definition stub_result :: yolo_result where
  "stub_result =
     \<lparr>boxes = Some [\<lparr>box_cls = 0, box_conf = 0.9, box_xyxy = (0, 0, 10, 10),
                      box_xywhn = (0.25, 0.25, 0.5, 0.5)\<rparr>,
                     \<lparr>box_cls = 1, box_conf = 0.1, box_xyxy = (5, 5, 8, 8),
                      box_xywhn = (0.325, 0.325, 0.15, 0.15)\<rparr>],
      names = stub_names\<rparr>"

definition stub_env :: environment where
  "stub_env =
     \<lparr>path_exists = (\<lambda>p. p = ''models/GarIA.pt''),
      YOLO = (\<lambda>p. if p = ''models/GarIA.pt''
                   then Inr \<lparr>weights = p, device = ''cpu'', task = Some ''detect''\<rparr>
                   else Inl (ExternalError ''weights not found'')),
      run_model = (\<lambda>m src conf iou max_det classes.
                   if src = FilePath ''broken.jpg''
                   then Inl (ExternalError ''cannot identify image file'')
                   else Inr [stub_result]),
      image_open = (\<lambda>p. if p = ''broken.jpg''
                   then Inl (ExternalError ''cannot identify image file'')
                   else Inr \<lparr>img_width = 20, img_height = 20, img_format = Some ''JPEG'',
                            img_mode = ''RGB''\<rparr>),
      clock = real\<rparr>"

definition det_bottle :: Detection where
  "det_bottle =
     \<lparr>class_id = 0, class_name = ''bottle'', confidence = 0.9,
      bbox = \<lparr>x1 = 0, y1 = 0, x2 = 10, y2 = 10\<rparr>,
      bbox_normalized = Some [(''x'', 0.25), (''y'', 0.25), (''width'', 0.5), (''height'', 0.5)]\<rparr>"

definition det_bag :: Detection where
  "det_bag =
     \<lparr>class_id = 1, class_name = ''bag'', confidence = 0.1,
      bbox = \<lparr>x1 = 5, y1 = 5, x2 = 8, y2 = 8\<rparr>,
      bbox_normalized =
        Some [(''x'', 0.325), (''y'', 0.325), (''width'', 0.15), (''height'', 0.15)]\<rparr>"

definition sample_result :: DetectionResult where
  "sample_result =
     \<lparr>detections = [det_bottle, det_bag], image_info = [(''source_type'', PyStr ''unknown'')],
      processing_time = 0.5, model_info = [(''status'', PyStr ''not_loaded'')], timestamp = 2\<rparr>"

definition no_override :: custom_config where
  "no_override =
     \<lparr>cc_confidence = None, cc_iou_threshold = None, cc_max_detections = None,
      cc_class_ids = None\<rparr>"

definition stub_model :: YOLO_model where
  "stub_model = \<lparr>weights = ''models/GarIA.pt'', device = ''cpu'', task = Some ''detect''\<rparr>"

text \<open>
  A service in which \<^verbatim>\<open>initialize_model\<close> has stored the configuration \<open>cfg\<close> and
  loaded the stub model under the name \<^verbatim>\<open>GarIA.pt\<close>.
\<close>

definition loaded_service :: "ModelConfiguration \<Rightarrow> ObjectDetectionService" where
  "loaded_service cfg =
     \<lparr>model_config = Some cfg,
      model_loader = \<lparr>model = Some stub_model, loader_model_path = Some ''GarIA.pt''\<rparr>\<rparr>"

definition loaded_world :: world where
  "loaded_world = \<lparr>clock_reads = 0, calls = [LoadCall ''models/GarIA.pt'']\<rparr>"

text \<open>The configuration the controller initialises the service with.\<close>

definition default_config :: ModelConfiguration where
  "default_config =
     \<lparr>model_name = ''GarIA.pt'', model_path = ''models/GarIA.pt'',
      confidence_threshold = 0.25, iou_threshold = 0.45, max_detections = 1000,
      target_classes = None\<rparr>"

text \<open>A configuration other than the defaults, and one with an allow-list.\<close>

definition strict_config :: ModelConfiguration where
  "strict_config =
     \<lparr>model_name = ''GarIA.pt'', model_path = ''models/GarIA.pt'',
      confidence_threshold = 0.5, iou_threshold = 0.6, max_detections = 50,
      target_classes = None\<rparr>"

definition bottle_config :: ModelConfiguration where
  "bottle_config =
     \<lparr>model_name = ''GarIA.pt'', model_path = ''models/GarIA.pt'',
      confidence_threshold = 0.25, iou_threshold = 0.45, max_detections = 1000,
      target_classes = Some [''bottle'']\<rparr>"

section \<open>Unfolding rules\<close>

lemmas model_defs =
  initialize_model_def initialize_model_try_def config_is_valid_def load_model_def
  os_path_join_def detect_objects_def detect_objects_try_def merge_configs_def predict_def
  read_clock_def request_configuration_def dict_get_def convert_to_domain_entities_def
  format_result_def format_box_def get_image_info_def pil_info_def error_info_def
  get_model_info_def failure_result_def batch_step_def detect_objects_batch_def Let_def

lemmas stub_defs =
  stub_env_def stub_result_def stub_names_def stub_model_def loaded_service_def
  loaded_world_def default_config_def no_override_def new_service_def initial_world_def
  det_bottle_def det_bag_def sample_result_def strict_config_def bottle_config_def

section \<open>Properties of the entities\<close>

text \<open>
  C3: for every detection \<open>d\<close> and every real \<open>c\<close>, \<open>is_valid d c\<close> is true exactly
  when the confidence is at least \<open>c\<close>, lies in [0,1], and the box has positive width and
  height. The predicate is a total function into the booleans (it cannot raise), and a
  box of zero or negative width or height makes it false.
\<close>

theorem is_valid_iff:
  "(is_valid d c =
      (confidence d \<ge> c \<and> 0 \<le> confidence d \<and> confidence d \<le> 1 \<and>
       x2 (bbox d) - x1 (bbox d) > 0 \<and> y2 (bbox d) - y1 (bbox d) > 0)) \<and>
   (width (bbox d) \<le> 0 \<or> height (bbox d) \<le> 0 \<longrightarrow> is_valid d c = False)"
  by (auto simp: is_valid_def width_def height_def)

theorem is_valid_iff_witness:
  "is_valid det_bottle 0.5 = True \<and>
   height (bbox (det_bag\<lparr>bbox := \<lparr>x1 = 5, y1 = 5, x2 = 8, y2 = 5\<rparr>\<rparr>)) \<le> 0 \<and>
   is_valid (det_bag\<lparr>bbox := \<lparr>x1 = 5, y1 = 5, x2 = 8, y2 = 5\<rparr>\<rparr>) 0.05 = False"
  using is_valid_iff [of det_bottle "0.5"]
    is_valid_iff [of "det_bag\<lparr>bbox := \<lparr>x1 = 5, y1 = 5, x2 = 8, y2 = 5\<rparr>\<rparr>" "0.05"]
  by (simp add: height_def det_bottle_def det_bag_def)

text \<open>
  C4, at an empty result. The statistics of a result without detections are the
  dictionary of five zero values, which has no key \<^verbatim>\<open>processing_time\<close>; the
  statistics of a result with detections have the key. So the statistics do not
  contain the processing time for every result.
\<close>

theorem statistics_empty_without_processing_time:
  "get_statistics (sample_result\<lparr>detections := []\<rparr>) =
     [(''total_detections'', PyInt 0), (''unique_classes'', PyStrList []),
      (''avg_confidence'', PyFloat 0), (''max_confidence'', PyFloat 0),
      (''min_confidence'', PyFloat 0)] \<and>
   has_key (get_statistics (sample_result\<lparr>detections := []\<rparr>)) ''processing_time'' = False \<and>
   has_key (get_statistics sample_result) ''processing_time'' = True"
  by (simp add: has_key_def get_statistics_def sample_result_def det_bottle_def det_bag_def)

text \<open>
  C5: every element of \<open>filter_by_confidence r c\<close> has confidence at least \<open>c\<close>; every
  stored detection with confidence at least \<open>c\<close> is in the output; the output is a
  subsequence of the stored detections, in their order (it is the stored list with the
  other elements deleted, so multiplicities are kept too). The method is a function of
  the result and the threshold alone and returns a new list: the stored sequence is
  the same before and after.
\<close>

theorem filter_by_confidence_spec:
  "(\<forall>d \<in> set (filter_by_confidence r c). confidence d \<ge> c) \<and>
   (\<forall>d \<in> set (detections r). confidence d \<ge> c \<longrightarrow> d \<in> set (filter_by_confidence r c)) \<and>
   subseq (filter_by_confidence r c) (detections r) \<and>
   (\<forall>d. count_list (filter_by_confidence r c) d =
      (if confidence d \<ge> c then count_list (detections r) d else 0))"
proof -
  have cnt: "count_list (filter P xs) d = (if P d then count_list xs d else 0)"
    for P :: "Detection \<Rightarrow> bool" and xs d
    by (induction xs) auto
  show ?thesis
    unfolding filter_by_confidence_def by (auto simp: cnt)
qed

theorem filter_by_confidence_spec_witness:
  "det_bottle \<in> set (filter_by_confidence sample_result 0.2) \<and>
   confidence det_bottle \<ge> 0.2 \<and>
   det_bottle \<in> set (detections sample_result) \<and>
   subseq (filter_by_confidence sample_result 0.2) (detections sample_result) \<and>
   filter_by_confidence sample_result 0.2 = [det_bottle]"
  using filter_by_confidence_spec [of sample_result "0.2"]
  by (simp add: filter_by_confidence_def sample_result_def det_bottle_def det_bag_def)

text \<open>
  The statistics of a result without detections are the five zero values, whatever the
  other fields of the result are; no average is computed.
\<close>

theorem get_statistics_empty:
  "get_statistics (r\<lparr>detections := []\<rparr>) =
     [(''total_detections'', PyInt 0), (''unique_classes'', PyStrList []),
      (''avg_confidence'', PyFloat 0), (''max_confidence'', PyFloat 0),
      (''min_confidence'', PyFloat 0)]"
  by (simp add: get_statistics_def)

lemma py_max_Max: "xs \<noteq> [] \<Longrightarrow> py_max xs = Max (set xs)"
  by (cases xs) (simp_all add: Max.set_eq_fold [symmetric])

lemma py_min_Min: "xs \<noteq> [] \<Longrightarrow> py_min xs = Min (set xs)"
  by (cases xs) (simp_all add: Min.set_eq_fold [symmetric])

text \<open>
  The statistics of a result with detections: their number, the distinct class names,
  the mean, the greatest and the least confidence, and the processing time.
\<close>

theorem get_statistics_nonempty:
  assumes "detections r \<noteq> []"
  shows "get_statistics r =
     [(''total_detections'', PyInt (detection_count r)),
      (''unique_classes'', PyStrList (unique_classes r)),
      (''avg_confidence'',
         PyFloat (sum_list (map confidence (detections r)) / real (length (detections r)))),
      (''max_confidence'', PyFloat (Max (confidence ` set (detections r)))),
      (''min_confidence'', PyFloat (Min (confidence ` set (detections r)))),
      (''processing_time'', PyFloat (processing_time r))] \<and>
    set (unique_classes r) = class_name ` set (detections r) \<and>
    distinct (unique_classes r)"
  using assms
  by (simp add: get_statistics_def detection_count_def unique_classes_def py_max_Max
      py_min_Min Let_def)

theorem get_statistics_nonempty_witness:
  "detections sample_result \<noteq> [] \<and>
   get_statistics sample_result =
     [(''total_detections'', PyInt 2),
      (''unique_classes'', PyStrList [''bottle'', ''bag'']),
      (''avg_confidence'', PyFloat 0.5),
      (''max_confidence'', PyFloat 0.9),
      (''min_confidence'', PyFloat 0.1),
      (''processing_time'', PyFloat 0.5)]"
proof -
  have n: "detections sample_result \<noteq> []" by (simp add: sample_result_def)
  show ?thesis
    using get_statistics_nonempty [OF n] n
    by (simp add: sample_result_def det_bottle_def det_bag_def detection_count_def
        unique_classes_def)
qed

text \<open>
  \<open>filter_by_class\<close> keeps exactly the detections whose class name is among the given
  names, in the stored order.
\<close>

theorem filter_by_class_spec:
  "(\<forall>d \<in> set (filter_by_class r ns). class_name d \<in> set ns) \<and>
   (\<forall>d \<in> set (detections r). class_name d \<in> set ns \<longrightarrow> d \<in> set (filter_by_class r ns)) \<and>
   subseq (filter_by_class r ns) (detections r)"
  unfolding filter_by_class_def by auto

theorem filter_by_class_spec_witness:
  "filter_by_class sample_result [''bottle'', ''can''] = [det_bottle] \<and>
   subseq (filter_by_class sample_result [''bottle'', ''can'']) (detections sample_result)"
  using filter_by_class_spec [of sample_result "[''bottle'', ''can'']"]
  by (simp add: filter_by_class_def sample_result_def det_bottle_def det_bag_def)

text \<open>
  A configuration is valid exactly when both thresholds lie in [0,1] and the maximal
  number of detections is positive: a confidence threshold of 1.5 is refused, and
  (0.3, 0.4, 10) is accepted.
\<close>

theorem config_is_valid_iff:
  "config_is_valid c =
     (0 \<le> confidence_threshold c \<and> confidence_threshold c \<le> 1 \<and>
      0 \<le> iou_threshold c \<and> iou_threshold c \<le> 1 \<and> 0 < max_detections c) \<and>
   config_is_valid (default_config\<lparr>confidence_threshold := 1.5\<rparr>) = False \<and>
   config_is_valid (default_config\<lparr>confidence_threshold := 0.3, iou_threshold := 0.4,
      max_detections := 10\<rparr>) = True"
  by (auto simp: config_is_valid_def default_config_def)

section \<open>Properties of the model loader\<close>

text \<open>
  C8: if \<open>load_model\<close> returned a handle for the name \<open>name\<close> and the loader is as
  that call left it, a second call for \<open>name\<close> returns the same handle, leaves the
  loader as it is and makes no call to the constructor: it gives this answer in every
  environment and adds nothing to the world. A call for another name calls the
  constructor on the resolved path; it fails with the constructor's exception, the loader
  unchanged, or stores and returns the new handle.
\<close>

theorem load_model_idempotent:
  assumes "load_model env name l w = (Inr m, l', w')"
  shows "load_model env2 name l' w2 = (Inr m, l', w2) \<and>
    (name2 \<noteq> name \<longrightarrow>
       load_model env2 name2 l' w2 =
         (let joined = os_path_join ''models'' name2;
              path = (if path_exists env2 joined then joined else name2);
              w3 = w2\<lparr>calls := calls w2 @ [LoadCall path]\<rparr>
          in case YOLO env2 path of
               Inl e \<Rightarrow> (Inl e, l', w3)
             | Inr m2 \<Rightarrow> (Inr m2, l'\<lparr>model := Some m2, loader_model_path := Some name2\<rparr>, w3)))"
proof -
  from assms have loaded: "model l' = Some m \<and> loader_model_path l' = Some name"
    by (auto simp: load_model_def Let_def split: if_splits sum.splits)
  then show ?thesis
    by (simp add: load_model_def Let_def)
qed

theorem load_model_idempotent_witness:
  "load_model stub_env ''GarIA.pt'' (model_loader new_service) initial_world =
     (Inr stub_model, model_loader (loaded_service default_config), loaded_world) \<and>
   load_model (stub_env\<lparr>YOLO := \<lambda>p. Inl (ExternalError ''constructor called'')\<rparr>) ''GarIA.pt''
       (model_loader (loaded_service default_config)) loaded_world =
     (Inr stub_model, model_loader (loaded_service default_config), loaded_world) \<and>
   ''yolov8n.pt'' \<noteq> ''GarIA.pt'' \<and>
   load_model (stub_env\<lparr>YOLO := \<lambda>p. Inl (ExternalError ''constructor called'')\<rparr>) ''yolov8n.pt''
       (model_loader (loaded_service default_config)) loaded_world =
     (Inl (ExternalError ''constructor called''), model_loader (loaded_service default_config),
      loaded_world\<lparr>calls := calls loaded_world @ [LoadCall ''yolov8n.pt'']\<rparr>)"
proof -
  have h: "load_model stub_env ''GarIA.pt'' (model_loader new_service) initial_world =
     (Inr stub_model, model_loader (loaded_service default_config), loaded_world)"
    by (simp add: model_defs stub_defs)
  show ?thesis
    using h load_model_idempotent [OF h,
        where ?env2.0 = "stub_env\<lparr>YOLO := \<lambda>p. Inl (ExternalError ''constructor called'')\<rparr>"
          and ?w2.0 = loaded_world and ?name2.0 = "''yolov8n.pt''"]
    by (simp add: os_path_join_def stub_env_def Let_def)
qed

section \<open>Properties of the detection service\<close>

subsection \<open>Initialisation\<close>

text \<open>
  C10: \<open>initialize_model\<close> returns a boolean in every case, every exception of its
  body becoming False. It returns True exactly when the configuration is valid and the
  model load succeeds. When the configuration is not valid it returns False and the
  service, its stored configuration included, and the world are as before.
\<close>

theorem initialize_model_total:
  "fst (initialize_model env cfg svc w) =
     (config_is_valid cfg \<and>
      (\<exists>m. fst (load_model env (model_name cfg) (model_loader svc) w) = Inr m)) \<and>
   (\<forall>e. fst (initialize_model_try env cfg svc w) = Inl e \<longrightarrow>
      fst (initialize_model env cfg svc w) = False) \<and>
   (\<not> config_is_valid cfg \<longrightarrow> initialize_model env cfg svc w = (False, svc, w))"
  by (auto simp: initialize_model_def initialize_model_try_def Let_def
      split: prod.splits sum.splits)

theorem initialize_model_total_witness:
  "config_is_valid (default_config\<lparr>max_detections := 0\<rparr>) = False \<and>
   initialize_model stub_env (default_config\<lparr>max_detections := 0\<rparr>)
       (loaded_service strict_config) loaded_world =
     (False, loaded_service strict_config, loaded_world) \<and>
   model_config (loaded_service strict_config) = Some strict_config \<and>
   fst (initialize_model stub_env default_config new_service initial_world) = True"
  using initialize_model_total [where env = stub_env
      and cfg = "default_config\<lparr>max_detections := 0\<rparr>"
      and svc = "loaded_service strict_config" and w = loaded_world]
    initialize_model_total [where env = stub_env and cfg = default_config and svc = new_service
      and w = initial_world]
  by (simp add: config_is_valid_def default_config_def load_model_def new_service_def
      stub_env_def os_path_join_def loaded_service_def Let_def)

lemma load_model_parameters:
  "load_model env name l w = (r, l', w') \<Longrightarrow> inference_parameters w' = inference_parameters w"
  by (auto simp: load_model_def Let_def inference_parameters_def map_filter_def
      split: if_splits sum.splits)

lemma initialize_model_parameters:
  "initialize_model env cfg svc w = (b, svc', w') \<Longrightarrow>
     inference_parameters w' = inference_parameters w"
  by (auto simp: initialize_model_def initialize_model_try_def Let_def
      split: if_splits prod.splits sum.splits dest: load_model_parameters)

lemma initialize_model_valid_config:
  "config_is_valid cfg \<Longrightarrow> initialize_model env cfg svc w = (b, svc', w') \<Longrightarrow>
     model_config svc' = Some cfg"
  by (auto simp: initialize_model_def initialize_model_try_def Let_def
      split: if_splits prod.splits sum.splits)

subsection \<open>A single detection\<close>

text \<open>
  C9: with the override omitted, \<open>detect_objects\<close> raises \<^verbatim>\<open>AttributeError\<close> while
  building the configuration of the request, for every image source, service and
  environment: the service is unchanged (nothing was validated or stored) and the world
  is unchanged (no load and no inference call was made).
\<close>

theorem detect_objects_without_override:
  "detect_objects env src None svc w =
     (Inl (AttributeError ''NoneType object has no attribute get''), svc, w)"
  by (simp add: detect_objects_def)

text \<open>
  C1, at a service that holds the default configuration and a loaded model. The
  override \<^verbatim>\<open>{'confidence': 1.5}\<close> gives a configuration that is not valid, yet
  \<open>detect_objects\<close> returns a result and the detector has been run with the
  confidence threshold 1.5.
\<close>

theorem invalid_override_reaches_inference:
  "config_is_valid (request_configuration (no_override\<lparr>cc_confidence := Some 1.5\<rparr>)) = False \<and>
   isl (fst (detect_objects stub_env (FilePath ''img.jpg'')
       (Some (no_override\<lparr>cc_confidence := Some 1.5\<rparr>)) (loaded_service default_config)
       loaded_world)) = False \<and>
   inference_parameters (snd (snd (detect_objects stub_env (FilePath ''img.jpg'')
       (Some (no_override\<lparr>cc_confidence := Some 1.5\<rparr>)) (loaded_service default_config)
       loaded_world))) =
     [\<lparr>mc_confidence = 1.5, mc_iou_threshold = 0.45, mc_max_detections = 1000,
       mc_class_ids = None\<rparr>]"
  by (simp add: model_defs stub_defs inference_parameters_def map_filter_def)

lemma inference_parameters_clock [simp]:
  "inference_parameters (w\<lparr>clock_reads := n\<rparr>) = inference_parameters w"
  by (simp add: inference_parameters_def)

lemma inference_parameters_infer:
  "inference_parameters (w\<lparr>calls := calls w @ [InferCall src c i m ids]\<rparr>) =
     inference_parameters w @
       [\<lparr>mc_confidence = c, mc_iou_threshold = i, mc_max_detections = m, mc_class_ids = ids\<rparr>]"
  by (simp add: inference_parameters_def map_filter_def)

lemma predict_parameters:
  "predict env l src c i m ids w = (r, w') \<Longrightarrow>
     inference_parameters w' =
       inference_parameters w @
         (if model l = None then []
          else [\<lparr>mc_confidence = c, mc_iou_threshold = i, mc_max_detections = m,
                  mc_class_ids = ids\<rparr>])"
  by (auto simp: predict_def Let_def inference_parameters_infer split: option.splits sum.splits)

text \<open>
  Inside the \<^verbatim>\<open>try\<close> block the merge is onto the configuration the service holds at
  that moment.
\<close>

lemma detect_objects_try_parameters:
  assumes "model_config s = Some a"
    and "detect_objects_try env src cc st s w = (res, w')"
  shows "inference_parameters w' =
      inference_parameters w @
        (if model (model_loader s) = None then [] else [spec_merge (Some a) cc])"
proof -
  let ?c = "spec_merge (Some a) cc"
  have m: "merge_configs s cc = Inr ?c"
    using assms(1) by (simp add: merge_configs_def spec_merge_def)
  obtain r w1 where p: "predict env (model_loader s) src (mc_confidence ?c) (mc_iou_threshold ?c)
      (mc_max_detections ?c) (mc_class_ids ?c) w = (r, w1)"
    by (cases "predict env (model_loader s) src (mc_confidence ?c) (mc_iou_threshold ?c)
      (mc_max_detections ?c) (mc_class_ids ?c) w") auto
  have w1: "inference_parameters w1 =
      inference_parameters w @ (if model (model_loader s) = None then [] else [?c])"
    using predict_parameters [OF p] by simp
  from assms(2) have "inference_parameters w' = inference_parameters w1"
    by (auto simp: detect_objects_try_def m p read_clock_def Let_def assms(1) split: sum.splits)
  with w1 show ?thesis by simp
qed

lemma spec_merge_request:
  "spec_merge (Some (request_configuration cc)) cc = spec_merge None cc"
  by (simp add: spec_merge_def request_configuration_def dict_get_def split: option.splits)

lemma effective_configuration_aux:
  assumes "config_is_valid (request_configuration cc)"
    and "detect_objects env src (Some cc) svc w = (res, svc', w')"
  shows "model_config svc' = Some (request_configuration cc) \<and>
    inference_parameters w' =
      inference_parameters w @
        (if model (model_loader svc') = None then [] else [spec_merge None cc])"
proof -
  obtain b s1 w1 where init: "initialize_model env (request_configuration cc) svc w = (b, s1, w1)"
    by (cases "initialize_model env (request_configuration cc) svc w") auto
  have cfg: "model_config s1 = Some (request_configuration cc)"
    using initialize_model_valid_config [OF assms(1) init] .
  have par: "inference_parameters w1 = inference_parameters w"
    using initialize_model_parameters [OF init] .
  let ?w2 = "w1\<lparr>clock_reads := Suc (clock_reads w1)\<rparr>"
  from assms(2)
  have run: "detect_objects_try env src cc (clock env (clock_reads w1)) s1 ?w2 = (res, w')"
    and same: "svc' = s1"
    by (auto simp: detect_objects_def init cfg read_clock_def split: prod.splits)
  from detect_objects_try_parameters [OF cfg run] par same cfg
  show ?thesis by (simp add: spec_merge_request)
qed




text \<open>
  C7, at a service whose stored configuration has the allow-list \<^verbatim>\<open>["bottle"]\<close> and a
  loaded model, called with the override \<^verbatim>\<open>{'confidence': 0.2}\<close>: the result holds the
  bottle and the bag, in the detector's order. The allow-list is gone when the filter
  runs, since the request configuration, which has none, has replaced the stored one.
\<close>

theorem allow_list_lost_on_valid_request:
  "target_classes bottle_config = Some [''bottle''] \<and>
   model_config (loaded_service bottle_config) = Some bottle_config \<and>
   map class_name (case fst (detect_objects stub_env (FilePath ''img.jpg'')
       (Some (no_override\<lparr>cc_confidence := Some 0.2\<rparr>)) (loaded_service bottle_config)
       loaded_world) of Inr r \<Rightarrow> detections r | Inl e \<Rightarrow> []) = [''bottle'', ''bag'']"
  by (simp add: model_defs stub_defs)

subsection \<open>What a detection returns and what an invalid request does\<close>

lemma initialize_model_invalid:
  "\<not> config_is_valid cfg \<Longrightarrow> initialize_model env cfg svc w = (False, svc, w)"
  by (simp add: initialize_model_def initialize_model_try_def)

text \<open>
  A request whose configuration is not valid, made to a service that stores no
  configuration, raises \<^verbatim>\<open>ValueError\<close> and leaves service and world untouched: no
  model is loaded and the detector is not run.
\<close>

theorem invalid_request_without_configuration:
  assumes "\<not> config_is_valid (request_configuration cc)" and "model_config svc = None"
  shows "detect_objects env src (Some cc) svc w =
     (Inl (ValueError ''Modelo nao inicializado. Chame initialize_model() primeiro.''), svc, w)"
  using assms by (simp add: detect_objects_def initialize_model_invalid)

theorem invalid_request_without_configuration_witness:
  "\<not> config_is_valid (request_configuration (no_override\<lparr>cc_max_detections := Some 0\<rparr>)) \<and>
   model_config new_service = None \<and>
   detect_objects stub_env (FilePath ''img.jpg'')
       (Some (no_override\<lparr>cc_max_detections := Some 0\<rparr>)) new_service initial_world =
     (Inl (ValueError ''Modelo nao inicializado. Chame initialize_model() primeiro.''),
      new_service, initial_world)"
proof -
  have a: "\<not> config_is_valid (request_configuration (no_override\<lparr>cc_max_detections := Some 0\<rparr>))"
    by (simp add: config_is_valid_def request_configuration_def dict_get_def no_override_def)
  have b: "model_config new_service = None" by (simp add: new_service_def)
  show ?thesis
    using a b invalid_request_without_configuration [OF a b, where env = stub_env
        and src = "FilePath ''img.jpg''" and w = initial_world]
    by simp
qed

text \<open>
  A request whose configuration is not valid, made to a service that stores the
  configuration \<open>a\<close>, leaves the service as it is and goes on: if a model is loaded the
  detector is run once, with the override merged field by field onto \<open>a\<close>.
\<close>

theorem invalid_request_merges_onto_stored:
  assumes "\<not> config_is_valid (request_configuration cc)" and "model_config svc = Some a"
  shows "case detect_objects env src (Some cc) svc w of
      (res, svc', w') \<Rightarrow>
        svc' = svc \<and>
        inference_parameters w' =
          inference_parameters w @
            (if model (model_loader svc) = None then [] else [spec_merge (Some a) cc])"
proof -
  obtain res w' where run: "detect_objects_try env src cc (clock env (clock_reads w)) svc
      (w\<lparr>clock_reads := Suc (clock_reads w)\<rparr>) = (res, w')"
    by (cases "detect_objects_try env src cc (clock env (clock_reads w)) svc
      (w\<lparr>clock_reads := Suc (clock_reads w)\<rparr>)") auto
  have d: "detect_objects env src (Some cc) svc w = (res, svc, w')"
    using assms run by (simp add: detect_objects_def initialize_model_invalid read_clock_def)
  from detect_objects_try_parameters [OF assms(2) run] d show ?thesis by simp
qed

theorem invalid_request_merges_onto_stored_witness:
  "\<not> config_is_valid (request_configuration (no_override\<lparr>cc_confidence := Some 1.5\<rparr>)) \<and>
   model_config (loaded_service strict_config) = Some strict_config \<and>
   inference_parameters (snd (snd (detect_objects stub_env (FilePath ''img.jpg'')
       (Some (no_override\<lparr>cc_confidence := Some 1.5\<rparr>)) (loaded_service strict_config)
       loaded_world))) =
     [\<lparr>mc_confidence = 1.5, mc_iou_threshold = 0.6, mc_max_detections = 50,
       mc_class_ids = None\<rparr>]"
proof -
  have a: "\<not> config_is_valid (request_configuration (no_override\<lparr>cc_confidence := Some 1.5\<rparr>))"
    by (simp add: config_is_valid_def request_configuration_def dict_get_def no_override_def)
  have b: "model_config (loaded_service strict_config) = Some strict_config"
    by (simp add: loaded_service_def)
  have w0: "inference_parameters loaded_world = []"
    by (simp add: inference_parameters_def loaded_world_def map_filter_def)
  show ?thesis
    using a b w0 invalid_request_merges_onto_stored [OF a b, where env = stub_env
        and src = "FilePath ''img.jpg''" and w = loaded_world]
    by (simp add: spec_merge_def dict_get_def no_override_def strict_config_def
        loaded_service_def split: prod.splits)
qed

lemma detect_objects_try_detections:
  assumes "model_config s = Some a"
    and "detect_objects_try env src cc st s w = (Inr r, w')"
  shows "\<exists>m results.
      model (model_loader s) = Some m \<and>
      run_model env m src (mc_confidence (spec_merge (Some a) cc))
        (mc_iou_threshold (spec_merge (Some a) cc)) (mc_max_detections (spec_merge (Some a) cc))
        (cc_class_ids cc) = Inr results \<and>
      detections r =
        (case target_classes a of
           None \<Rightarrow> convert_to_domain_entities (concat (map format_result results))
         | Some allowed \<Rightarrow>
             [d \<leftarrow> convert_to_domain_entities (concat (map format_result results)).
                class_name d \<in> set allowed])"
proof -
  have m: "merge_configs s cc = Inr (spec_merge (Some a) cc)"
    using assms(1) by (simp add: merge_configs_def spec_merge_def)
  have ids: "mc_class_ids (spec_merge (Some a) cc) = cc_class_ids cc"
    by (simp add: spec_merge_def)
  from assms(2) show ?thesis
    unfolding detect_objects_try_def m
    by (auto simp: predict_def read_clock_def Let_def ids assms(1)
        split: option.splits sum.splits prod.splits)
qed

lemma detect_objects_Inr:
  assumes "detect_objects env src (Some cc) svc w = (Inr r, svc', w')"
  shows "\<exists>a st w1. model_config svc' = Some a \<and>
      detect_objects_try env src cc st svc' w1 = (Inr r, w')"
  using assms
  by (auto simp: detect_objects_def read_clock_def split: prod.splits if_splits)

text \<open>
  When \<open>detect_objects\<close> returns a result, a model is loaded and its answer to the
  merged parameters, converted box by box in the detector's order, is what the result
  holds: all of it when the configuration the service stores after the call has no
  allow-list, and otherwise the converted detections whose class name is in the
  allow-list, in the same order. A valid request configuration is the stored one after
  the call, and it has no allow-list.
\<close>

theorem result_detections_filtered:
  assumes "detect_objects env src (Some cc) svc w = (Inr r, svc', w')"
  shows "\<exists>a m results.
      model_config svc' = Some a \<and> model (model_loader svc') = Some m \<and>
      run_model env m src (mc_confidence (spec_merge (Some a) cc))
        (mc_iou_threshold (spec_merge (Some a) cc)) (mc_max_detections (spec_merge (Some a) cc))
        (cc_class_ids cc) = Inr results \<and>
      detections r =
        (case target_classes a of
           None \<Rightarrow> convert_to_domain_entities (concat (map format_result results))
         | Some allowed \<Rightarrow>
             [d \<leftarrow> convert_to_domain_entities (concat (map format_result results)).
                class_name d \<in> set allowed]) \<and>
      (config_is_valid (request_configuration cc) \<longrightarrow> target_classes a = None)"
proof -
  from detect_objects_Inr [OF assms] obtain a st w1 where
    a: "model_config svc' = Some a" and t: "detect_objects_try env src cc st svc' w1 = (Inr r, w')"
    by blast
  have "target_classes a = None" if "config_is_valid (request_configuration cc)"
    using effective_configuration_aux [OF that assms] a
    by (simp add: request_configuration_def)
  with detect_objects_try_detections [OF a t] a show ?thesis by blast
qed

theorem result_detections_filtered_witness:
  "detect_objects stub_env (FilePath ''img.jpg'') (Some (no_override\<lparr>cc_confidence := Some 1.5\<rparr>))
       (loaded_service bottle_config) loaded_world =
     (Inr \<lparr>detections = [det_bottle],
           image_info = get_image_info stub_env (FilePath ''img.jpg''),
           processing_time = 1,
           model_info = get_model_info (model_loader (loaded_service bottle_config)),
           timestamp = 2\<rparr>,
      loaded_service bottle_config,
      \<lparr>clock_reads = 3,
       calls = [LoadCall ''models/GarIA.pt'',
                InferCall (FilePath ''img.jpg'') 1.5 0.45 1000 None]\<rparr>) \<and>
   target_classes bottle_config = Some [''bottle''] \<and>
   run_model stub_env stub_model (FilePath ''img.jpg'') 1.5 0.45 1000 None = Inr [stub_result] \<and>
   convert_to_domain_entities (concat (map format_result [stub_result])) = [det_bottle, det_bag]"
proof -
  have h: "detect_objects stub_env (FilePath ''img.jpg'')
       (Some (no_override\<lparr>cc_confidence := Some 1.5\<rparr>))
       (loaded_service bottle_config) loaded_world =
     (Inr \<lparr>detections = [det_bottle],
           image_info = get_image_info stub_env (FilePath ''img.jpg''),
           processing_time = 1,
           model_info = get_model_info (model_loader (loaded_service bottle_config)),
           timestamp = 2\<rparr>,
      loaded_service bottle_config,
      \<lparr>clock_reads = 3,
       calls = [LoadCall ''models/GarIA.pt'',
                InferCall (FilePath ''img.jpg'') 1.5 0.45 1000 None]\<rparr>)"
    by (simp add: model_defs stub_defs)
  have c: "convert_to_domain_entities (concat (map format_result [stub_result])) =
      [det_bottle, det_bag]"
    by (simp add: model_defs stub_defs)
  from result_detections_filtered [OF h] h c show ?thesis
    by (simp add: bottle_config_def stub_env_def)
qed

text \<open>
  The stub detector end to end, on a new service and a request with the confidence
  threshold 0.2: the model is loaded, the detector is run once with (0.2, 0.45, 1000), and
  the result holds both detections in the detector's order (the pipeline does not filter
  by the threshold itself), with the classes bottle and bag and the mean confidence 0.5.
\<close>

theorem end_to_end_stub:
  "fst (detect_objects stub_env (FilePath ''img.jpg'')
       (Some (no_override\<lparr>cc_confidence := Some 0.2\<rparr>)) new_service initial_world) =
     Inr \<lparr>detections = [det_bottle, det_bag],
          image_info = get_image_info stub_env (FilePath ''img.jpg''),
          processing_time = 1,
          model_info = get_model_info (model_loader (loaded_service default_config)),
          timestamp = 2\<rparr> \<and>
   calls (snd (snd (detect_objects stub_env (FilePath ''img.jpg'')
       (Some (no_override\<lparr>cc_confidence := Some 0.2\<rparr>)) new_service initial_world))) =
     [LoadCall ''models/GarIA.pt'', InferCall (FilePath ''img.jpg'') 0.2 0.45 1000 None] \<and>
   set (unique_classes \<lparr>detections = [det_bottle, det_bag],
          image_info = get_image_info stub_env (FilePath ''img.jpg''),
          processing_time = 1,
          model_info = get_model_info (model_loader (loaded_service default_config)),
          timestamp = 2\<rparr>) = {''bottle'', ''bag''} \<and>
   map_of (get_statistics \<lparr>detections = [det_bottle, det_bag],
          image_info = get_image_info stub_env (FilePath ''img.jpg''),
          processing_time = 1,
          model_info = get_model_info (model_loader (loaded_service default_config)),
          timestamp = 2\<rparr>) ''avg_confidence'' = Some (PyFloat 0.5)"
  by (simp add: model_defs stub_defs unique_classes_def get_statistics_def insert_commute)

subsection \<open>Batches\<close>









end
